theory Spec2Isabelle
  imports Main
begin

section \<open>Python values, exceptions and network objects\<close>

text \<open>
  The module \<^verbatim>\<open>flash/vision/backbones.py\<close> maps a model name to a pair
  (feature extractor, feature width). It builds nothing itself: the networks come from
  \<^verbatim>\<open>torchvision.models\<close> and from the checkpoint loaders of \<^verbatim>\<open>pl_bolts\<close>. The model
  below keeps these collaborators as parameters (record \<open>env\<close>) and embeds the three
  functions of the module over them.
\<close>

text \<open>
  The extra arguments of \<^verbatim>\<open>backbone_and_num_features(model_name, *args, **kwargs)\<close> are
  arbitrary Python values.
\<close>

datatype pyval = PyNone | PyBool bool | PyInt int | PyStr string

text \<open>
  Every \<^verbatim>\<open>raise\<close> of the module is a constructor of \<open>error\<close>. \<open>TypeError\<close>,
  \<open>AttributeError\<close> and \<open>IndexError\<close> are what the interpreter raises on a call with
  arguments that do not fit a signature, on a missing attribute and on \<^verbatim>\<open>m[-1]\<close> of an
  empty container. An exception raised inside a library call (a constructor of
  \<^verbatim>\<open>torchvision.models\<close>, \<^verbatim>\<open>load_from_checkpoint\<close>) is kept apart as \<open>Propagated\<close>:
  the module neither catches nor wraps it, and keeping it apart lets a theorem say which
  \<^verbatim>\<open>raise\<close> statement of the module itself was reached.
\<close>

datatype error =
    ValueError string
  | MisconfigurationException string
  | TypeError
  | AttributeError string
  | IndexError
  | Propagated string

text \<open>
  A network object (\<^verbatim>\<open>nn.Module\<close>) is a tree: its class, its \<^verbatim>\<open>in_features\<close>
  attribute when it has one, and its named direct children in registration order
  (\<^verbatim>\<open>_modules\<close>). Sharing of one child object between two parents is not modelled.
\<close>

datatype kind = SequentialK | ReLUK bool | LayerK string

datatype module =
  Module (kind: kind) (in_features: "int option") (named_children: "(string \<times> module) list")

fun and_then :: "error + 'a \<Rightarrow> ('a \<Rightarrow> error + 'b) \<Rightarrow> error + 'b" where
  "and_then (Inl e) f = Inl e"
| "and_then (Inr v) f = f v"

text \<open>\<^verbatim>\<open>str(i)\<close> for a natural number: the key of the i-th child of a \<^verbatim>\<open>Sequential\<close>.\<close>

fun str_nat :: "nat \<Rightarrow> string" where
  "str_nat n =
     (if n < 10 then [char_of (48 + n)]
      else str_nat (n div 10) @ [char_of (48 + n mod 10)])"

text \<open>\<^verbatim>\<open>nn.Sequential(*ms)\<close> and \<^verbatim>\<open>nn.ReLU(inplace=b)\<close>.\<close>

definition Sequential :: "module list \<Rightarrow> module" where
  "Sequential ms = Module SequentialK None (zip (map str_nat [0..<length ms]) ms)"

definition ReLU :: "bool \<Rightarrow> module" where
  "ReLU inplace = Module (ReLUK inplace) None []"

text \<open>\<^verbatim>\<open>list(m.children())\<close>.\<close>

definition children :: "module \<Rightarrow> module list" where
  "children m = map snd (named_children m)"

text \<open>\<^verbatim>\<open>m.a\<close> for a sub-module name \<open>a\<close>.\<close>

definition getattr :: "module \<Rightarrow> string \<Rightarrow> error + module" where
  "getattr m a =
     (case map_of (named_children m) a of
        Some c \<Rightarrow> Inr c
      | None \<Rightarrow> Inl (AttributeError a))"

text \<open>\<^verbatim>\<open>m.in_features\<close>.\<close>

definition get_in_features :: "module \<Rightarrow> error + int" where
  "get_in_features m =
     (case in_features m of
        Some n \<Rightarrow> Inr n
      | None \<Rightarrow> Inl (AttributeError ''in_features''))"

text \<open>\<^verbatim>\<open>m[-1]\<close>: only a \<^verbatim>\<open>Sequential\<close> is subscriptable, and it must not be empty.\<close>

definition getitem_last :: "module \<Rightarrow> error + module" where
  "getitem_last m =
     (if kind m \<noteq> SequentialK then Inl TypeError
      else if named_children m = [] then Inl IndexError
      else Inr (snd (last (named_children m))))"

text \<open>\<^verbatim>\<open>*m\<close> in an argument list: only a \<^verbatim>\<open>Sequential\<close> is iterable.\<close>

definition iter_modules :: "module \<Rightarrow> error + module list" where
  "iter_modules m = (if kind m = SequentialK then Inr (children m) else Inl TypeError)"

text \<open>The slice \<^verbatim>\<open>xs[:-2]\<close>: everything but the last two elements, empty for a short list.\<close>

definition drop_last_two :: "'a list \<Rightarrow> 'a list" where
  "drop_last_two xs = take (length xs - 2) xs"

section \<open>The collaborators\<close>

text \<open>
  \<open>bolts_available\<close> is \<^verbatim>\<open>_BOLTS_AVAILABLE\<close>; \<open>torchvision_models\<close> is
  \<^verbatim>\<open>getattr(torchvision.models, name, None)\<close>, a constructor called with the
  \<^verbatim>\<open>pretrained\<close> value; the two loaders are \<^verbatim>\<open>SimCLR.load_from_checkpoint\<close> and
  \<^verbatim>\<open>SwAV.load_from_checkpoint\<close>, called with a location and the \<^verbatim>\<open>strict\<close> flag. A
  library call returns a network or fails with a description of its exception.
\<close>

record env =
  bolts_available :: bool
  torchvision_models :: "string \<Rightarrow> (pyval \<Rightarrow> string + module) option"
  SimCLR_load_from_checkpoint :: "string \<Rightarrow> bool \<Rightarrow> string + module"
  SwAV_load_from_checkpoint :: "string \<Rightarrow> bool \<Rightarrow> string + module"

definition library :: "string + 'a \<Rightarrow> error + 'a" where
  "library r = (case r of Inl x \<Rightarrow> Inl (Propagated x) | Inr v \<Rightarrow> Inr v)"

section \<open>The tables\<close>

definition ROOT_S3_BUCKET :: string where
  "ROOT_S3_BUCKET = ''https://pl-bolts-weights.s3.us-east-2.amazonaws.com''"

definition MOBILENET_MODELS :: "string list" where
  "MOBILENET_MODELS = [''mobilenet_v2'']"

definition VGG_MODELS :: "string list" where
  "VGG_MODELS = [''vgg11'', ''vgg13'', ''vgg16'', ''vgg19'']"

definition RESNET_MODELS :: "string list" where
  "RESNET_MODELS =
     [''resnet18'', ''resnet34'', ''resnet50'', ''resnet101'', ''resnet152'',
      ''resnext50_32x4d'', ''resnext101_32x8d'']"

definition DENSENET_MODELS :: "string list" where
  "DENSENET_MODELS = [''densenet121'', ''densenet169'', ''densenet161'']"

definition TORCHVISION_MODELS :: "string list" where
  "TORCHVISION_MODELS = MOBILENET_MODELS @ VGG_MODELS @ RESNET_MODELS @ DENSENET_MODELS"

definition BOLTS_MODELS :: "string list" where
  "BOLTS_MODELS = [''simclr-imagenet'', ''swav-imagenet'']"

section \<open>The self-supervised resolver\<close>

definition load_simclr_imagenet :: "env \<Rightarrow> string \<Rightarrow> error + module \<times> int" where
  "load_simclr_imagenet env path_or_url =
     and_then (library (SimCLR_load_from_checkpoint env path_or_url False)) (\<lambda>simclr.
     and_then (getattr simclr ''encoder'') (\<lambda>encoder.
       Inr (Sequential (drop_last_two (children encoder)), 2048)))"

definition load_swav_imagenet :: "env \<Rightarrow> string \<Rightarrow> error + module \<times> int" where
  "load_swav_imagenet env path_or_url =
     and_then (library (SwAV_load_from_checkpoint env path_or_url True)) (\<lambda>swav.
     and_then (getattr swav ''model'') (\<lambda>model.
       Inr (Sequential (drop_last_two (children model)), 3000)))"

text \<open>The default locations of the two loaders.\<close>

definition simclr_imagenet_url :: string where
  "simclr_imagenet_url = ROOT_S3_BUCKET @ ''/simclr/bolts_simclr_imagenet/simclr_imagenet.ckpt''"

definition swav_imagenet_url :: string where
  "swav_imagenet_url = ROOT_S3_BUCKET @ ''/swav/swav_imagenet/swav_imagenet.pth.tar''"

text \<open>
  The dictionary \<^verbatim>\<open>models\<close>: each name with its loader, here already applied to its
  default location (\<^verbatim>\<open>models[model_name]()\<close>); HOL evaluates the entry only when it is
  looked up.
\<close>

definition models :: "env \<Rightarrow> (string \<times> (error + module \<times> int)) list" where
  "models env =
     [(''simclr-imagenet'', load_simclr_imagenet env simclr_imagenet_url),
      (''swav-imagenet'', load_swav_imagenet env swav_imagenet_url)]"

definition bolts_not_installed :: string where
  "bolts_not_installed =
     ''Bolts isn'' @ [CHR 0x27] @ ''t installed. Please, use ``pip install lightning-bolts``.''"

definition bolts_backbone_and_num_features :: "env \<Rightarrow> string \<Rightarrow> error + module \<times> int" where
  "bolts_backbone_and_num_features env model_name =
     (if \<not> bolts_available env then Inl (MisconfigurationException bolts_not_installed)
      else case map_of (models env) model_name of
             Some loaded \<Rightarrow> loaded
           | None \<Rightarrow> Inl (ValueError (model_name @ '' is not supported yet.'')))"

section \<open>The general-vision resolver\<close>

definition torchvision_backbone_and_num_features ::
  "env \<Rightarrow> string \<Rightarrow> pyval \<Rightarrow> error + module \<times> int" where
  "torchvision_backbone_and_num_features env model_name pretrained =
     (case torchvision_models env model_name of
        None \<Rightarrow> Inl (MisconfigurationException (model_name @ '' is not supported by torchvision''))
      | Some model \<Rightarrow>
          if model_name \<in> set (MOBILENET_MODELS @ VGG_MODELS) then
            and_then (library (model pretrained)) (\<lambda>net.
            and_then (getattr net ''features'') (\<lambda>backbone.
            and_then (getattr net ''classifier'') (\<lambda>classifier.
            and_then (getitem_last classifier) (\<lambda>final.
            and_then (get_in_features final) (\<lambda>num_features.
              Inr (backbone, num_features))))))
          else if model_name \<in> set RESNET_MODELS then
            and_then (library (model pretrained)) (\<lambda>net.
            let backbone = Sequential (drop_last_two (children net)) in
            and_then (getattr net ''fc'') (\<lambda>fc.
            and_then (get_in_features fc) (\<lambda>num_features.
              Inr (backbone, num_features))))
          else if model_name \<in> set DENSENET_MODELS then
            and_then (library (model pretrained)) (\<lambda>net.
            and_then (getattr net ''features'') (\<lambda>features.
            and_then (iter_modules features) (\<lambda>layers.
            let backbone = Sequential (layers @ [ReLU True]) in
            and_then (getattr net ''classifier'') (\<lambda>classifier.
            and_then (get_in_features classifier) (\<lambda>num_features.
              Inr (backbone, num_features))))))
          else Inl (ValueError (model_name @ '' is not supported yet.'')))"

section \<open>The dispatcher\<close>

text \<open>
  A call \<^verbatim>\<open>f(model_name, *args, **kwargs)\<close> binds the extra arguments to the parameters
  of \<open>f\<close> and raises \<open>TypeError\<close> when they do not fit. The keyword arguments are a
  dictionary, here an association list (a Python dictionary has no duplicate keys).

  \<^verbatim>\<open>torchvision_backbone_and_num_features(model_name, pretrained=True)\<close> takes at most one
  extra argument, by position or under the keyword \<^verbatim>\<open>pretrained\<close>.
\<close>

fun bind_pretrained :: "pyval list \<Rightarrow> (string \<times> pyval) list \<Rightarrow> error + pyval" where
  "bind_pretrained [] kwargs =
     (if set (map fst kwargs) \<subseteq> {''pretrained''}
      then (case map_of kwargs ''pretrained'' of None \<Rightarrow> Inr (PyBool True) | Some v \<Rightarrow> Inr v)
      else Inl TypeError)"
| "bind_pretrained [v] kwargs = (if kwargs = [] then Inr v else Inl TypeError)"
| "bind_pretrained (v # w # ws) kwargs = Inl TypeError"

definition call_torchvision_backbone_and_num_features ::
  "env \<Rightarrow> string \<Rightarrow> pyval list \<Rightarrow> (string \<times> pyval) list \<Rightarrow> error + module \<times> int" where
  "call_torchvision_backbone_and_num_features env model_name args kwargs =
     and_then (bind_pretrained args kwargs)
       (torchvision_backbone_and_num_features env model_name)"

text \<open>
  \<^verbatim>\<open>bolts_backbone_and_num_features(model_name)\<close> has no further parameter: a call of it
  with any extra argument raises \<open>TypeError\<close>.
\<close>

definition call_bolts_backbone_and_num_features ::
  "env \<Rightarrow> string \<Rightarrow> pyval list \<Rightarrow> (string \<times> pyval) list \<Rightarrow> error + module \<times> int" where
  "call_bolts_backbone_and_num_features env model_name args kwargs =
     (if args = [] \<and> kwargs = [] then bolts_backbone_and_num_features env model_name
      else Inl TypeError)"

text \<open>
  The dispatcher reads the two module-level lists \<^verbatim>\<open>BOLTS_MODELS\<close> and
  \<^verbatim>\<open>TORCHVISION_MODELS\<close> when it is called. \<open>backbone_and_num_features_on\<close> is its body as a
  function of the two lists, and \<open>backbone_and_num_features\<close> is that body on the lists the
  module assigns.
\<close>

definition backbone_and_num_features_on ::
  "string list \<Rightarrow> string list \<Rightarrow> env \<Rightarrow> string \<Rightarrow> pyval list \<Rightarrow> (string \<times> pyval) list
     \<Rightarrow> error + module \<times> int" where
  "backbone_and_num_features_on bolts_models tv_models env model_name args kwargs =
     (if model_name \<in> set bolts_models then
        bolts_backbone_and_num_features env model_name
      else if model_name \<in> set tv_models then
        call_torchvision_backbone_and_num_features env model_name args kwargs
      else Inl (ValueError (model_name @ '' is not supported yet.'')))"

definition backbone_and_num_features ::
  "env \<Rightarrow> string \<Rightarrow> pyval list \<Rightarrow> (string \<times> pyval) list \<Rightarrow> error + module \<times> int" where
  "backbone_and_num_features =
     backbone_and_num_features_on BOLTS_MODELS TORCHVISION_MODELS"

section \<open>A concrete environment\<close>

text \<open>
  Small networks with the attribute layout of the library's architectures, used to
  evaluate the resolvers on concrete inputs.
\<close>

definition layer :: "string \<Rightarrow> module" where
  "layer c = Module (LayerK c) None []"

definition Linear :: "int \<Rightarrow> module" where
  "Linear n = Module (LayerK ''Linear'') (Some n) []"

definition resnet_net :: "int \<Rightarrow> module" where
  "resnet_net width =
     Module (LayerK ''ResNet'') None
       [(''conv1'', layer ''Conv2d''), (''bn1'', layer ''BatchNorm2d''),
        (''relu'', ReLU True), (''maxpool'', layer ''MaxPool2d''),
        (''layer1'', Sequential [layer ''Block'']), (''layer2'', Sequential [layer ''Block'']),
        (''layer3'', Sequential [layer ''Block'']), (''layer4'', Sequential [layer ''Block'']),
        (''avgpool'', layer ''AdaptiveAvgPool2d''), (''fc'', Linear width)]"

definition mobilenet_v2_net :: module where
  "mobilenet_v2_net =
     Module (LayerK ''MobileNetV2'') None
       [(''features'', Sequential [layer ''ConvBNReLU'', layer ''InvertedResidual'']),
        (''classifier'', Sequential [layer ''Dropout'', Linear 1280])]"

definition vgg16_net :: module where
  "vgg16_net =
     Module (LayerK ''VGG'') None
       [(''features'', Sequential [layer ''Conv2d'', ReLU True, layer ''MaxPool2d'']),
        (''avgpool'', layer ''AdaptiveAvgPool2d''),
        (''classifier'',
           Sequential [Linear 25088, ReLU True, layer ''Dropout'',
                       Linear 4096, ReLU True, layer ''Dropout'', Linear 4096])]"

definition densenet121_net :: module where
  "densenet121_net =
     Module (LayerK ''DenseNet'') None
       [(''features'', Sequential [layer ''Conv2d'', layer ''DenseBlock'', layer ''BatchNorm2d'']),
        (''classifier'', Linear 1024)]"

definition alexnet_net :: module where
  "alexnet_net =
     Module (LayerK ''AlexNet'') None
       [(''features'', Sequential [layer ''Conv2d'', ReLU True, layer ''MaxPool2d'']),
        (''avgpool'', layer ''AdaptiveAvgPool2d''),
        (''classifier'', Sequential [layer ''Dropout'', Linear 9216, ReLU True, Linear 4096])]"

definition simclr_net :: module where
  "simclr_net = Module (LayerK ''SimCLR'') None [(''encoder'', resnet_net 2048)]"

definition swav_net :: module where
  "swav_net = Module (LayerK ''SwAV'') None [(''model'', resnet_net 2048)]"

definition sample_env :: env where
  "sample_env =
     \<lparr> bolts_available = True,
       torchvision_models =
         map_of [(''resnet18'', \<lambda>p. Inr (resnet_net 512)),
                 (''resnet50'', \<lambda>p. Inr (resnet_net 2048)),
                 (''mobilenet_v2'', \<lambda>p. Inr mobilenet_v2_net),
                 (''vgg16'', \<lambda>p. Inr vgg16_net),
                 (''densenet121'', \<lambda>p. Inr densenet121_net),
                 (''alexnet'', \<lambda>p. Inr alexnet_net)],
       SimCLR_load_from_checkpoint = (\<lambda>path strict. Inr simclr_net),
       SwAV_load_from_checkpoint = (\<lambda>path strict. Inr swav_net) \<rparr>"

text \<open>The same environment without the self-supervised library.\<close>

definition sample_env_no_bolts :: env where
  "sample_env_no_bolts = sample_env \<lparr> bolts_available := False \<rparr>"

section \<open>Auxiliary facts\<close>

text \<open>
  The module raises \<open>ValueError\<close> at three places only; no attribute lookup and no
  library call of the model yields one.
\<close>

lemmas table_defs = MOBILENET_MODELS_def VGG_MODELS_def RESNET_MODELS_def DENSENET_MODELS_def
  TORCHVISION_MODELS_def BOLTS_MODELS_def

lemmas object_defs = getattr_def get_in_features_def getitem_last_def iter_modules_def
  children_def library_def

lemma and_then_ValueError:
  "and_then r f = Inl (ValueError m) \<longleftrightarrow>
     r = Inl (ValueError m) \<or> (\<exists>v. r = Inr v \<and> f v = Inl (ValueError m))"
  by (cases r) auto

lemma library_not_ValueError: "library r \<noteq> Inl (ValueError m)"
  by (simp add: library_def split: sum.splits)

lemma getattr_not_ValueError: "getattr net a \<noteq> Inl (ValueError m)"
  by (simp add: getattr_def split: option.splits)

lemma get_in_features_not_ValueError: "get_in_features net \<noteq> Inl (ValueError m)"
  by (simp add: get_in_features_def split: option.splits)

lemma getitem_last_not_ValueError: "getitem_last net \<noteq> Inl (ValueError m)"
  by (simp add: getitem_last_def)

lemma iter_modules_not_ValueError: "iter_modules net \<noteq> Inl (ValueError m)"
  by (simp add: iter_modules_def)

lemmas not_ValueError = library_not_ValueError getattr_not_ValueError
  get_in_features_not_ValueError getitem_last_not_ValueError iter_modules_not_ValueError

lemma families_cover:
  "model_name \<in> set TORCHVISION_MODELS \<longleftrightarrow>
     model_name \<in> set (MOBILENET_MODELS @ VGG_MODELS) \<or> model_name \<in> set RESNET_MODELS
       \<or> model_name \<in> set DENSENET_MODELS"
  by (auto simp: TORCHVISION_MODELS_def)

lemma resnet_not_mobilenet_vgg:
  "model_name \<in> set RESNET_MODELS \<Longrightarrow> model_name \<notin> set (MOBILENET_MODELS @ VGG_MODELS)"
  by (auto simp: table_defs)

lemma torchvision_not_bolts:
  "model_name \<in> set TORCHVISION_MODELS \<Longrightarrow> model_name \<notin> set BOLTS_MODELS"
  by (auto simp: table_defs)

lemma torchvision_ValueError_iff:
  "torchvision_backbone_and_num_features env model_name pretrained = Inl (ValueError m) \<longleftrightarrow>
     model_name \<notin> set TORCHVISION_MODELS \<and> torchvision_models env model_name \<noteq> None
       \<and> m = model_name @ '' is not supported yet.''"
  unfolding families_cover torchvision_backbone_and_num_features_def
  by (auto simp: and_then_ValueError not_ValueError Let_def split: option.splits simp del: set_append)

lemma children_Sequential: "children (Sequential ms) = ms"
  by (simp add: children_def Sequential_def map_snd_zip)

lemma drop_last_two_append: "drop_last_two (kept @ [a, b]) = kept"
  by (simp add: drop_last_two_def)

section \<open>The dispatcher: order of the two membership tests\<close>

text \<open>
  Claim C1. The dispatcher tests the name against the self-supervised list before it tests
  it against the general-vision list. Whatever the two lists hold, a name in the
  self-supervised list is resolved by \<open>bolts_backbone_and_num_features\<close>, also when the
  other list holds it too; a name in neither list reaches no resolver: the result is the
  dispatcher's own \<open>ValueError\<close>, in every environment, whatever the resolvers would have
  returned there. The last conjunct ties the statement to the lists the module assigns.
\<close>
theorem bolts_membership_checked_first:
  "(model_name \<in> set bolts_models \<longrightarrow>
      backbone_and_num_features_on bolts_models tv_models env model_name args kwargs
        = bolts_backbone_and_num_features env model_name)
   \<and> (model_name \<notin> set bolts_models \<longrightarrow> model_name \<notin> set tv_models \<longrightarrow>
      backbone_and_num_features_on bolts_models tv_models env model_name args kwargs
        = Inl (ValueError (model_name @ '' is not supported yet.'')))
   \<and> backbone_and_num_features env model_name args kwargs
        = backbone_and_num_features_on BOLTS_MODELS TORCHVISION_MODELS env model_name args kwargs"
  by (simp add: backbone_and_num_features_on_def backbone_and_num_features_def)

text \<open>
  With \<^verbatim>\<open>simclr-imagenet\<close> put into both lists the self-supervised resolver answers (the
  general-vision resolver would have raised a configuration error); and
  \<^verbatim>\<open>not-a-model\<close> gets the dispatcher's error in an environment where either resolver
  would have raised a configuration error.
\<close>
theorem bolts_membership_checked_first_witness:
  "''simclr-imagenet'' \<in> set BOLTS_MODELS
   \<and> ''simclr-imagenet'' \<in> set (''simclr-imagenet'' # TORCHVISION_MODELS)
   \<and> backbone_and_num_features_on BOLTS_MODELS (''simclr-imagenet'' # TORCHVISION_MODELS)
        sample_env ''simclr-imagenet'' [] []
       = Inr (Sequential (drop_last_two (children (resnet_net 2048))), 2048)
   \<and> call_torchvision_backbone_and_num_features sample_env ''simclr-imagenet'' [] []
       = Inl (MisconfigurationException ''simclr-imagenet is not supported by torchvision'')
   \<and> ''not-a-model'' \<notin> set BOLTS_MODELS \<and> ''not-a-model'' \<notin> set TORCHVISION_MODELS
   \<and> backbone_and_num_features_on BOLTS_MODELS TORCHVISION_MODELS
        sample_env_no_bolts ''not-a-model'' [] []
       = Inl (ValueError ''not-a-model is not supported yet.'')
   \<and> bolts_backbone_and_num_features sample_env_no_bolts ''not-a-model''
       = Inl (MisconfigurationException bolts_not_installed)
   \<and> call_torchvision_backbone_and_num_features sample_env_no_bolts ''not-a-model'' [] []
       = Inl (MisconfigurationException ''not-a-model is not supported by torchvision'')"
  using bolts_membership_checked_first
          [of "''simclr-imagenet''" BOLTS_MODELS "''simclr-imagenet'' # TORCHVISION_MODELS"
              sample_env "[]" "[]"]
        bolts_membership_checked_first
          [of "''not-a-model''" BOLTS_MODELS TORCHVISION_MODELS sample_env_no_bolts "[]" "[]"]
  by (simp add: table_defs sample_env_def sample_env_no_bolts_def simclr_net_def
      bolts_backbone_and_num_features_def models_def load_simclr_imagenet_def
      call_torchvision_backbone_and_num_features_def
      torchvision_backbone_and_num_features_def object_defs)

section \<open>Names in no table\<close>

text \<open>
  Claim C2. For a model name in neither \<^verbatim>\<open>BOLTS_MODELS\<close> nor
  \<^verbatim>\<open>TORCHVISION_MODELS\<close>, and any extra arguments, \<open>backbone_and_num_features\<close> raises
  \<open>ValueError\<close>, and the message is that name followed by
  \<^verbatim>\<open> is not supported yet.\<close>
\<close>
theorem unsupported_name_ValueError:
  assumes "model_name \<notin> set BOLTS_MODELS" and "model_name \<notin> set TORCHVISION_MODELS"
  shows "backbone_and_num_features env model_name args kwargs
           = Inl (ValueError (model_name @ '' is not supported yet.''))"
  using assms by (simp add: backbone_and_num_features_def backbone_and_num_features_on_def)

theorem unsupported_name_ValueError_witness:
  "''not-a-model'' \<notin> set BOLTS_MODELS \<and> ''not-a-model'' \<notin> set TORCHVISION_MODELS
   \<and> backbone_and_num_features sample_env ''not-a-model'' [PyBool False] [(''depth'', PyInt 3)]
       = Inl (ValueError ''not-a-model is not supported yet.'')"
proof -
  have b: "''not-a-model'' \<notin> set BOLTS_MODELS" by (simp add: table_defs)
  have t: "''not-a-model'' \<notin> set TORCHVISION_MODELS" by (simp add: table_defs)
  show ?thesis
    using b t unsupported_name_ValueError [OF b t, of sample_env "[PyBool False]" "[(''depth'', PyInt 3)]"]
    by simp
qed

section \<open>The self-supervised resolver: widths and availability\<close>

text \<open>
  Claim C3. Whenever resolving \<^verbatim>\<open>simclr-imagenet\<close> returns, the width is 2048, and
  whenever resolving \<^verbatim>\<open>swav-imagenet\<close> returns, it is 3000. It does return when the
  library is available, the checkpoint loads and the loaded object has the sub-network
  (\<^verbatim>\<open>encoder\<close>, \<^verbatim>\<open>model\<close>): then the result is the truncated sub-network with that
  constant, whatever network was loaded.
\<close>
theorem bolts_widths_fixed:
  "(\<forall>backbone w. bolts_backbone_and_num_features env ''simclr-imagenet'' = Inr (backbone, w)
       \<longrightarrow> w = 2048)
   \<and> (\<forall>backbone w. bolts_backbone_and_num_features env ''swav-imagenet'' = Inr (backbone, w)
       \<longrightarrow> w = 3000)
   \<and> (bolts_available env \<longrightarrow>
        SimCLR_load_from_checkpoint env simclr_imagenet_url False = Inr simclr \<longrightarrow>
        getattr simclr ''encoder'' = Inr encoder \<longrightarrow>
        bolts_backbone_and_num_features env ''simclr-imagenet''
          = Inr (Sequential (drop_last_two (children encoder)), 2048))
   \<and> (bolts_available env \<longrightarrow>
        SwAV_load_from_checkpoint env swav_imagenet_url True = Inr swav \<longrightarrow>
        getattr swav ''model'' = Inr model \<longrightarrow>
        bolts_backbone_and_num_features env ''swav-imagenet''
          = Inr (Sequential (drop_last_two (children model)), 3000))"
proof -
  have simclr: "w = 2048"
    if "bolts_backbone_and_num_features env ''simclr-imagenet'' = Inr (backbone, w)"
    for backbone w
  proof (cases "library (SimCLR_load_from_checkpoint env simclr_imagenet_url False)")
    case (Inl e)
    with that show ?thesis
      by (simp add: bolts_backbone_and_num_features_def models_def load_simclr_imagenet_def
          split: if_splits)
  next
    case (Inr net)
    with that show ?thesis
      by (cases "getattr net ''encoder''")
        (simp_all add: bolts_backbone_and_num_features_def models_def
          load_simclr_imagenet_def split: if_splits)
  qed
  have swav: "w = 3000"
    if "bolts_backbone_and_num_features env ''swav-imagenet'' = Inr (backbone, w)"
    for backbone w
  proof (cases "library (SwAV_load_from_checkpoint env swav_imagenet_url True)")
    case (Inl e)
    with that show ?thesis
      by (simp add: bolts_backbone_and_num_features_def models_def load_swav_imagenet_def
          split: if_splits)
  next
    case (Inr net)
    with that show ?thesis
      by (cases "getattr net ''model''")
        (simp_all add: bolts_backbone_and_num_features_def models_def
          load_swav_imagenet_def split: if_splits)
  qed
  have loaded_simclr:
    "bolts_backbone_and_num_features env ''simclr-imagenet''
       = Inr (Sequential (drop_last_two (children encoder)), 2048)"
    if "bolts_available env"
      and "SimCLR_load_from_checkpoint env simclr_imagenet_url False = Inr simclr"
      and "getattr simclr ''encoder'' = Inr encoder"
    using that
    by (simp add: bolts_backbone_and_num_features_def models_def load_simclr_imagenet_def
        library_def)
  have loaded_swav:
    "bolts_backbone_and_num_features env ''swav-imagenet''
       = Inr (Sequential (drop_last_two (children model)), 3000)"
    if "bolts_available env"
      and "SwAV_load_from_checkpoint env swav_imagenet_url True = Inr swav"
      and "getattr swav ''model'' = Inr model"
    using that
    by (simp add: bolts_backbone_and_num_features_def models_def load_swav_imagenet_def
        library_def)
  from simclr swav loaded_simclr loaded_swav show ?thesis
    by blast
qed

text \<open>
  In the concrete environment both checkpoints hold the same network, whose final layer
  has \<^verbatim>\<open>in_features\<close> 2048; the widths returned are 2048 and 3000.
\<close>
theorem bolts_widths_fixed_witness:
  "bolts_available sample_env
   \<and> SimCLR_load_from_checkpoint sample_env simclr_imagenet_url False = Inr simclr_net
   \<and> getattr simclr_net ''encoder'' = Inr (resnet_net 2048)
   \<and> bolts_backbone_and_num_features sample_env ''simclr-imagenet''
       = Inr (Sequential (drop_last_two (children (resnet_net 2048))), 2048)
   \<and> SwAV_load_from_checkpoint sample_env swav_imagenet_url True = Inr swav_net
   \<and> getattr swav_net ''model'' = Inr (resnet_net 2048)
   \<and> bolts_backbone_and_num_features sample_env ''swav-imagenet''
       = Inr (Sequential (drop_last_two (children (resnet_net 2048))), 3000)"
proof -
  have a: "bolts_available sample_env"
    by (simp add: sample_env_def)
  have l1: "SimCLR_load_from_checkpoint sample_env simclr_imagenet_url False = Inr simclr_net"
    by (simp add: sample_env_def)
  have g1: "getattr simclr_net ''encoder'' = Inr (resnet_net 2048)"
    by (simp add: simclr_net_def getattr_def)
  have l2: "SwAV_load_from_checkpoint sample_env swav_imagenet_url True = Inr swav_net"
    by (simp add: sample_env_def)
  have g2: "getattr swav_net ''model'' = Inr (resnet_net 2048)"
    by (simp add: swav_net_def getattr_def)
  note fixed =
    bolts_widths_fixed [of sample_env simclr_net "resnet_net 2048" swav_net "resnet_net 2048"]
  from fixed a l1 g1 have r1:
    "bolts_backbone_and_num_features sample_env ''simclr-imagenet''
       = Inr (Sequential (drop_last_two (children (resnet_net 2048))), 2048)"
    by blast
  from fixed a l2 g2 have r2:
    "bolts_backbone_and_num_features sample_env ''swav-imagenet''
       = Inr (Sequential (drop_last_two (children (resnet_net 2048))), 3000)"
    by blast
  from a l1 g1 r1 l2 g2 r2 show ?thesis
    by (intro conjI)
qed

text \<open>
  Claim C4. When the self-supervised library is not available,
  \<open>bolts_backbone_and_num_features\<close> raises \<open>MisconfigurationException\<close> with the
  installation hint, for every name, hence for the two recognised names, and whatever
  the checkpoint loaders would do: no loader is consulted. The same error comes out of the
  dispatcher for a name of \<^verbatim>\<open>BOLTS_MODELS\<close>.
\<close>
theorem bolts_unavailable_misconfiguration:
  assumes "\<not> bolts_available env"
  shows "bolts_backbone_and_num_features env model_name
           = Inl (MisconfigurationException bolts_not_installed)
         \<and> (model_name \<in> set BOLTS_MODELS \<longrightarrow>
              backbone_and_num_features env model_name args kwargs
                = Inl (MisconfigurationException bolts_not_installed))"
  using assms
  by (simp add: bolts_backbone_and_num_features_def backbone_and_num_features_def
      backbone_and_num_features_on_def)

theorem bolts_unavailable_misconfiguration_witness:
  "\<not> bolts_available sample_env_no_bolts
   \<and> bolts_backbone_and_num_features sample_env_no_bolts ''simclr-imagenet''
       = Inl (MisconfigurationException bolts_not_installed)
   \<and> bolts_backbone_and_num_features sample_env_no_bolts ''swav-imagenet''
       = Inl (MisconfigurationException bolts_not_installed)
   \<and> ''swav-imagenet'' \<in> set BOLTS_MODELS
   \<and> backbone_and_num_features sample_env_no_bolts ''swav-imagenet'' [] []
       = Inl (MisconfigurationException bolts_not_installed)"
proof -
  have u: "\<not> bolts_available sample_env_no_bolts"
    by (simp add: sample_env_no_bolts_def)
  have m: "''swav-imagenet'' \<in> set BOLTS_MODELS"
    by (simp add: BOLTS_MODELS_def)
  note raised = bolts_unavailable_misconfiguration [OF u]
  from u m raised [of "''simclr-imagenet''" "[]" "[]"] raised [of "''swav-imagenet''" "[]" "[]"]
  show ?thesis
    by blast
qed

section \<open>Forwarding of the construction arguments\<close>

text \<open>
  Claim C5 says that the extra arguments are forwarded verbatim on both paths. On the
  self-supervised path the dispatcher calls \<^verbatim>\<open>bolts_backbone_and_num_features(model_name)\<close>:
  with the extra argument \<^verbatim>\<open>False\<close> it returns the backbone, whereas the call with that
  argument forwarded does not fit the resolver's signature.
\<close>
theorem bolts_call_drops_arguments_counterexample:
  "backbone_and_num_features sample_env ''simclr-imagenet'' [PyBool False] []
     \<noteq> call_bolts_backbone_and_num_features sample_env ''simclr-imagenet'' [PyBool False] []"
  by (simp add: backbone_and_num_features_def backbone_and_num_features_on_def
      call_bolts_backbone_and_num_features_def BOLTS_MODELS_def
      bolts_backbone_and_num_features_def models_def load_simclr_imagenet_def
      sample_env_def simclr_net_def library_def getattr_def)

text \<open>
  Claim C5, as amended. For a name of \<^verbatim>\<open>TORCHVISION_MODELS\<close> the dispatcher's result is
  that of the call \<^verbatim>\<open>torchvision_backbone_and_num_features(model_name, *args, **kwargs)\<close>
  with the same arguments: no argument gives \<^verbatim>\<open>pretrained=True\<close>, one positional
  argument or the keyword \<^verbatim>\<open>pretrained\<close> gives that value. For a name of
  \<^verbatim>\<open>BOLTS_MODELS\<close> the resolver is called with the name only, and the extra arguments
  are not forwarded.
\<close>
theorem arguments_forwarded_on_torchvision_path:
  "(model_name \<in> set TORCHVISION_MODELS \<longrightarrow>
      backbone_and_num_features env model_name args kwargs
        = call_torchvision_backbone_and_num_features env model_name args kwargs
      \<and> backbone_and_num_features env model_name [] []
        = torchvision_backbone_and_num_features env model_name (PyBool True)
      \<and> backbone_and_num_features env model_name [v] []
        = torchvision_backbone_and_num_features env model_name v
      \<and> backbone_and_num_features env model_name [] [(''pretrained'', v)]
        = torchvision_backbone_and_num_features env model_name v)
   \<and> (model_name \<in> set BOLTS_MODELS \<longrightarrow>
      backbone_and_num_features env model_name args kwargs
        = bolts_backbone_and_num_features env model_name)"
  using torchvision_not_bolts [of model_name]
  by (auto simp: backbone_and_num_features_def backbone_and_num_features_on_def
      call_torchvision_backbone_and_num_features_def)

theorem arguments_forwarded_on_torchvision_path_witness:
  "''resnet18'' \<in> set TORCHVISION_MODELS
   \<and> backbone_and_num_features sample_env ''resnet18'' [] [(''pretrained'', PyBool False)]
       = torchvision_backbone_and_num_features sample_env ''resnet18'' (PyBool False)
   \<and> backbone_and_num_features sample_env ''resnet18'' [PyBool False, PyInt 3] []
       = Inl TypeError
   \<and> ''simclr-imagenet'' \<in> set BOLTS_MODELS
   \<and> backbone_and_num_features sample_env ''simclr-imagenet'' [PyBool False] []
       = bolts_backbone_and_num_features sample_env ''simclr-imagenet''"
proof -
  have t: "''resnet18'' \<in> set TORCHVISION_MODELS"
    by (simp add: table_defs)
  have b: "''simclr-imagenet'' \<in> set BOLTS_MODELS"
    by (simp add: table_defs)
  note kw = arguments_forwarded_on_torchvision_path
    [of "''resnet18''" sample_env "[]" "[(''pretrained'', PyBool False)]" "PyBool False"]
  note two = arguments_forwarded_on_torchvision_path
    [of "''resnet18''" sample_env "[PyBool False, PyInt 3]" "[]" "PyBool False"]
  note ssl = arguments_forwarded_on_torchvision_path
    [of "''simclr-imagenet''" sample_env "[PyBool False]" "[]" "PyBool False"]
  from kw t have r1:
    "backbone_and_num_features sample_env ''resnet18'' [] [(''pretrained'', PyBool False)]
       = torchvision_backbone_and_num_features sample_env ''resnet18'' (PyBool False)"
    by blast
  from two t have
    "backbone_and_num_features sample_env ''resnet18'' [PyBool False, PyInt 3] []
       = call_torchvision_backbone_and_num_features sample_env ''resnet18''
           [PyBool False, PyInt 3] []"
    by blast
  then have r2:
    "backbone_and_num_features sample_env ''resnet18'' [PyBool False, PyInt 3] [] = Inl TypeError"
    by (simp add: call_torchvision_backbone_and_num_features_def)
  from ssl b have r3:
    "backbone_and_num_features sample_env ''simclr-imagenet'' [PyBool False] []
       = bolts_backbone_and_num_features sample_env ''simclr-imagenet''"
    by blast
  from t r1 r2 b r3 show ?thesis
    by (intro conjI)
qed

section \<open>Unknown names at the self-supervised resolver\<close>

text \<open>
  Claim C6 says that every name other than the two recognised ones gets the
  unsupported-model error and not a configuration error. Without the library the
  availability test comes first, and such a name gets the configuration error.
\<close>
theorem bolts_unknown_name_counterexample:
  "''not-a-model'' \<noteq> ''simclr-imagenet'' \<and> ''not-a-model'' \<noteq> ''swav-imagenet''
   \<and> bolts_backbone_and_num_features sample_env_no_bolts ''not-a-model''
       = Inl (MisconfigurationException bolts_not_installed)
   \<and> bolts_backbone_and_num_features sample_env_no_bolts ''not-a-model''
       \<noteq> Inl (ValueError ''not-a-model is not supported yet.'')"
  by (simp add: bolts_backbone_and_num_features_def sample_env_no_bolts_def)

text \<open>
  Claim C6, as amended. When the self-supervised library is available, a call of
  \<open>bolts_backbone_and_num_features\<close> with a name other than \<^verbatim>\<open>simclr-imagenet\<close> and
  \<^verbatim>\<open>swav-imagenet\<close> raises \<open>ValueError\<close> naming it.
\<close>
theorem bolts_unknown_name_ValueError:
  assumes "bolts_available env"
      and "model_name \<noteq> ''simclr-imagenet''" and "model_name \<noteq> ''swav-imagenet''"
  shows "bolts_backbone_and_num_features env model_name
           = Inl (ValueError (model_name @ '' is not supported yet.''))"
  using assms by (simp add: bolts_backbone_and_num_features_def models_def)

theorem bolts_unknown_name_ValueError_witness:
  "bolts_available sample_env
   \<and> ''not-a-model'' \<noteq> ''simclr-imagenet'' \<and> ''not-a-model'' \<noteq> ''swav-imagenet''
   \<and> bolts_backbone_and_num_features sample_env ''not-a-model''
       = Inl (ValueError ''not-a-model is not supported yet.'')"
proof -
  have a: "bolts_available sample_env"
    by (simp add: sample_env_def)
  have n1: "''not-a-model'' \<noteq> ''simclr-imagenet''" by simp
  have n2: "''not-a-model'' \<noteq> ''swav-imagenet''" by simp
  from a n1 n2 bolts_unknown_name_ValueError [OF a n1 n2] show ?thesis
    by simp
qed

section \<open>The general-vision resolver: family branches and failures\<close>

text \<open>
  Claim C7. For a name of \<^verbatim>\<open>RESNET_MODELS\<close> whose constructor exists and returns a
  network with a layer \<^verbatim>\<open>fc\<close>, the feature extractor is the \<^verbatim>\<open>Sequential\<close> of the
  network's direct children without the last two, and the width is \<^verbatim>\<open>fc.in_features\<close>.
  The second and third conjunct say what that module holds: its children are the
  truncated list, and for a network whose children end in two layers the truncated list
  is everything before them.
\<close>
theorem resnet_branch:
  assumes "model_name \<in> set RESNET_MODELS"
      and "torchvision_models env model_name = Some model"
      and "model pretrained = Inr net"
      and "getattr net ''fc'' = Inr fc"
      and "in_features fc = Some w"
  shows "torchvision_backbone_and_num_features env model_name pretrained
           = Inr (Sequential (drop_last_two (children net)), w)
         \<and> children (Sequential (drop_last_two (children net))) = drop_last_two (children net)
         \<and> (children net = kept @ [pool, head] \<longrightarrow> drop_last_two (children net) = kept)"
  using assms resnet_not_mobilenet_vgg [OF assms(1)]
  by (simp add: torchvision_backbone_and_num_features_def library_def get_in_features_def
      children_Sequential drop_last_two_append del: set_append)

text \<open>
  A network with the layout of \<^verbatim>\<open>resnet18\<close> and \<^verbatim>\<open>fc.in_features\<close> = 512 gives 512,
  and the pooling and the classification layer are gone; the one for \<^verbatim>\<open>resnet50\<close>
  gives 2048.
\<close>
theorem resnet_branch_witness:
  "''resnet18'' \<in> set RESNET_MODELS
   \<and> torchvision_models sample_env ''resnet18'' = Some (\<lambda>p. Inr (resnet_net 512))
   \<and> getattr (resnet_net 512) ''fc'' = Inr (Linear 512)
   \<and> in_features (Linear 512) = Some 512
   \<and> torchvision_backbone_and_num_features sample_env ''resnet18'' (PyBool True)
       = Inr (Sequential (drop_last_two (children (resnet_net 512))), 512)
   \<and> children (Sequential (drop_last_two (children (resnet_net 512))))
       = [layer ''Conv2d'', layer ''BatchNorm2d'', ReLU True, layer ''MaxPool2d'',
          Sequential [layer ''Block''], Sequential [layer ''Block''],
          Sequential [layer ''Block''], Sequential [layer ''Block'']]
   \<and> ''resnet50'' \<in> set RESNET_MODELS
   \<and> torchvision_backbone_and_num_features sample_env ''resnet50'' (PyBool True)
       = Inr (Sequential (drop_last_two (children (resnet_net 2048))), 2048)"
proof -
  have m18: "''resnet18'' \<in> set RESNET_MODELS" and m50: "''resnet50'' \<in> set RESNET_MODELS"
    by (simp_all add: RESNET_MODELS_def)
  have c18: "torchvision_models sample_env ''resnet18'' = Some (\<lambda>p. Inr (resnet_net 512))"
    and c50: "torchvision_models sample_env ''resnet50'' = Some (\<lambda>p. Inr (resnet_net 2048))"
    by (simp_all add: sample_env_def)
  have fc: "getattr (resnet_net n) ''fc'' = Inr (Linear n)" for n
    by (simp add: resnet_net_def getattr_def)
  have w: "in_features (Linear n) = Some n" for n
    by (simp add: Linear_def)
  have kept:
    "children (Sequential (drop_last_two (children (resnet_net 512))))
       = [layer ''Conv2d'', layer ''BatchNorm2d'', ReLU True, layer ''MaxPool2d'',
          Sequential [layer ''Block''], Sequential [layer ''Block''],
          Sequential [layer ''Block''], Sequential [layer ''Block'']]"
    by (simp add: children_def Sequential_def drop_last_two_def resnet_net_def upt_rec)
  from m18 c18 fc w kept m50
    resnet_branch [OF m18 c18 refl fc w, of "PyBool True", THEN conjunct1]
    resnet_branch [OF m50 c50 refl fc w, of "PyBool True", THEN conjunct1]
  show ?thesis
    by (intro conjI)
qed

text \<open>
  Claim C8. For a name of \<^verbatim>\<open>MOBILENET_MODELS + VGG_MODELS\<close> whose constructor exists and
  returns a network with the sub-networks \<^verbatim>\<open>features\<close> and \<^verbatim>\<open>classifier\<close>, the feature
  extractor is \<^verbatim>\<open>features\<close> itself and the width is the \<^verbatim>\<open>in_features\<close> of the last
  layer of \<^verbatim>\<open>classifier\<close>.
\<close>
theorem mobilenet_vgg_branch:
  assumes "model_name \<in> set (MOBILENET_MODELS @ VGG_MODELS)"
      and "torchvision_models env model_name = Some model"
      and "model pretrained = Inr net"
      and "getattr net ''features'' = Inr features"
      and "getattr net ''classifier'' = Inr classifier"
      and "getitem_last classifier = Inr final"
      and "in_features final = Some w"
  shows "torchvision_backbone_and_num_features env model_name pretrained = Inr (features, w)"
  using assms
  by (simp add: torchvision_backbone_and_num_features_def library_def get_in_features_def
      del: set_append)

theorem mobilenet_vgg_branch_witness:
  "''mobilenet_v2'' \<in> set (MOBILENET_MODELS @ VGG_MODELS)
   \<and> getattr mobilenet_v2_net ''features''
       = Inr (Sequential [layer ''ConvBNReLU'', layer ''InvertedResidual''])
   \<and> torchvision_backbone_and_num_features sample_env ''mobilenet_v2'' (PyBool True)
       = Inr (Sequential [layer ''ConvBNReLU'', layer ''InvertedResidual''], 1280)
   \<and> ''vgg16'' \<in> set (MOBILENET_MODELS @ VGG_MODELS)
   \<and> getattr vgg16_net ''features''
       = Inr (Sequential [layer ''Conv2d'', ReLU True, layer ''MaxPool2d''])
   \<and> torchvision_backbone_and_num_features sample_env ''vgg16'' (PyBool False)
       = Inr (Sequential [layer ''Conv2d'', ReLU True, layer ''MaxPool2d''], 4096)"
proof -
  have mm: "''mobilenet_v2'' \<in> set (MOBILENET_MODELS @ VGG_MODELS)"
    and mv: "''vgg16'' \<in> set (MOBILENET_MODELS @ VGG_MODELS)"
    by (simp_all add: MOBILENET_MODELS_def VGG_MODELS_def)
  have cm: "torchvision_models sample_env ''mobilenet_v2'' = Some (\<lambda>p. Inr mobilenet_v2_net)"
    and cv: "torchvision_models sample_env ''vgg16'' = Some (\<lambda>p. Inr vgg16_net)"
    by (simp_all add: sample_env_def)
  have fm: "getattr mobilenet_v2_net ''features''
              = Inr (Sequential [layer ''ConvBNReLU'', layer ''InvertedResidual''])"
    and km: "getattr mobilenet_v2_net ''classifier''
              = Inr (Sequential [layer ''Dropout'', Linear 1280])"
    by (simp_all add: mobilenet_v2_net_def getattr_def)
  have fv: "getattr vgg16_net ''features''
              = Inr (Sequential [layer ''Conv2d'', ReLU True, layer ''MaxPool2d''])"
    and kv: "getattr vgg16_net ''classifier''
              = Inr (Sequential [Linear 25088, ReLU True, layer ''Dropout'',
                                 Linear 4096, ReLU True, layer ''Dropout'', Linear 4096])"
    by (simp_all add: vgg16_net_def getattr_def)
  have lm: "getitem_last (Sequential [layer ''Dropout'', Linear 1280]) = Inr (Linear 1280)"
    by (simp add: getitem_last_def Sequential_def upt_rec)
  have lv: "getitem_last (Sequential [Linear 25088, ReLU True, layer ''Dropout'',
                                       Linear 4096, ReLU True, layer ''Dropout'', Linear 4096])
              = Inr (Linear 4096)"
    by (simp add: getitem_last_def Sequential_def upt_rec)
  have w: "in_features (Linear n) = Some n" for n
    by (simp add: Linear_def)
  from mm fm mv fv
    mobilenet_vgg_branch [OF mm cm refl fm km lm w, of "PyBool True"]
    mobilenet_vgg_branch [OF mv cv refl fv kv lv w, of "PyBool False"]
  show ?thesis
    by (intro conjI)
qed

text \<open>
  Claim C9. When \<^verbatim>\<open>torchvision.models\<close> has no attribute of the given name,
  \<open>torchvision_backbone_and_num_features\<close> raises \<open>MisconfigurationException\<close> with the
  name in its message. There is no constructor to call, and the test precedes the family
  tests: the name may even be one of a family table.
\<close>
theorem missing_constructor_misconfiguration:
  assumes "torchvision_models env model_name = None"
  shows "torchvision_backbone_and_num_features env model_name pretrained
           = Inl (MisconfigurationException (model_name @ '' is not supported by torchvision''))"
  using assms by (simp add: torchvision_backbone_and_num_features_def)

theorem missing_constructor_misconfiguration_witness:
  "torchvision_models sample_env ''not-a-model'' = None
   \<and> torchvision_backbone_and_num_features sample_env ''not-a-model'' (PyBool True)
       = Inl (MisconfigurationException ''not-a-model is not supported by torchvision'')
   \<and> torchvision_models sample_env ''vgg19'' = None
   \<and> torchvision_backbone_and_num_features sample_env ''vgg19'' (PyBool True)
       = Inl (MisconfigurationException ''vgg19 is not supported by torchvision'')"
proof -
  have n: "torchvision_models sample_env ''not-a-model'' = None"
    and v: "torchvision_models sample_env ''vgg19'' = None"
    by (simp_all add: sample_env_def)
  from n v
    missing_constructor_misconfiguration [OF n, of "PyBool True"]
    missing_constructor_misconfiguration [OF v, of "PyBool True"]
  show ?thesis
    by simp
qed

text \<open>
  Claim C10. A name of \<^verbatim>\<open>TORCHVISION_MODELS\<close> is in one of the three family tests.
  The resolver's own \<open>ValueError\<close> is raised exactly for the names outside
  \<^verbatim>\<open>TORCHVISION_MODELS\<close> that \<^verbatim>\<open>torchvision.models\<close> has, the final fall-through being
  its only \<^verbatim>\<open>raise ValueError\<close>; and the dispatcher, given a name of
  \<^verbatim>\<open>TORCHVISION_MODELS\<close>, never ends in a \<open>ValueError\<close>.
\<close>
theorem fall_through_reachability:
  "(model_name \<in> set TORCHVISION_MODELS \<longleftrightarrow>
      model_name \<in> set (MOBILENET_MODELS @ VGG_MODELS) \<or> model_name \<in> set RESNET_MODELS
        \<or> model_name \<in> set DENSENET_MODELS)
   \<and> ((\<exists>msg. torchvision_backbone_and_num_features env model_name pretrained
               = Inl (ValueError msg))
        \<longleftrightarrow> model_name \<notin> set TORCHVISION_MODELS \<and> torchvision_models env model_name \<noteq> None)
   \<and> (model_name \<in> set TORCHVISION_MODELS \<longrightarrow>
        (\<forall>msg. backbone_and_num_features env model_name args kwargs \<noteq> Inl (ValueError msg)))"
proof (intro conjI)
  show "model_name \<in> set TORCHVISION_MODELS \<longleftrightarrow>
      model_name \<in> set (MOBILENET_MODELS @ VGG_MODELS) \<or> model_name \<in> set RESNET_MODELS
        \<or> model_name \<in> set DENSENET_MODELS"
    by (rule families_cover)
  show "(\<exists>msg. torchvision_backbone_and_num_features env model_name pretrained
               = Inl (ValueError msg))
        \<longleftrightarrow> model_name \<notin> set TORCHVISION_MODELS \<and> torchvision_models env model_name \<noteq> None"
    by (simp add: torchvision_ValueError_iff)
  show "model_name \<in> set TORCHVISION_MODELS \<longrightarrow>
        (\<forall>msg. backbone_and_num_features env model_name args kwargs \<noteq> Inl (ValueError msg))"
  proof (intro impI allI)
    fix msg
    assume t: "model_name \<in> set TORCHVISION_MODELS"
    then have "backbone_and_num_features env model_name args kwargs
                 = call_torchvision_backbone_and_num_features env model_name args kwargs"
      using torchvision_not_bolts [OF t]
      by (simp add: backbone_and_num_features_def backbone_and_num_features_on_def)
    moreover have "bind_pretrained args kwargs \<noteq> Inl (ValueError msg)"
      by (cases "(args, kwargs)" rule: bind_pretrained.cases) (auto split: option.splits)
    ultimately show "backbone_and_num_features env model_name args kwargs \<noteq> Inl (ValueError msg)"
      using t
      by (simp add: call_torchvision_backbone_and_num_features_def and_then_ValueError
          torchvision_ValueError_iff)
  qed
qed

text \<open>
  \<^verbatim>\<open>alexnet\<close> is in the registry and in no table: the direct call falls through.
\<close>
theorem fall_through_reachability_witness:
  "''alexnet'' \<notin> set TORCHVISION_MODELS
   \<and> torchvision_models sample_env ''alexnet'' \<noteq> None
   \<and> torchvision_backbone_and_num_features sample_env ''alexnet'' (PyBool True)
       = Inl (ValueError ''alexnet is not supported yet.'')
   \<and> ''densenet121'' \<in> set TORCHVISION_MODELS
   \<and> ''densenet121'' \<in> set DENSENET_MODELS
   \<and> backbone_and_num_features sample_env ''densenet121'' [] []
       \<noteq> Inl (ValueError ''densenet121 is not supported yet.'')"
proof -
  have a: "''alexnet'' \<notin> set TORCHVISION_MODELS"
    and d: "''densenet121'' \<in> set TORCHVISION_MODELS"
    and d': "''densenet121'' \<in> set DENSENET_MODELS"
    by (simp_all add: table_defs)
  have r: "torchvision_models sample_env ''alexnet'' \<noteq> None"
    by (simp add: sample_env_def)
  have v: "torchvision_backbone_and_num_features sample_env ''alexnet'' (PyBool True)
             = Inl (ValueError ''alexnet is not supported yet.'')"
    using a r by (simp add: torchvision_ValueError_iff)
  from fall_through_reachability [of "''densenet121''" sample_env "PyBool True" "[]" "[]"] d
  have n: "backbone_and_num_features sample_env ''densenet121'' [] []
             \<noteq> Inl (ValueError ''densenet121 is not supported yet.'')"
    by blast
  from a r v d d' n show ?thesis
    by (intro conjI)
qed

end
